theory Spec2Isabelle
  imports Complex_Main
begin

section \<open>Data model\<close>

text \<open>
  Prices, strikes, deltas and cash are Python numbers (floats and ints coming from the
  brokerage API).  They are modelled as mathematical reals: rounding, infinities and
  NaN of IEEE arithmetic are outside the model, except where the source itself relies
  on them (the initial \<open>float('inf')\<close> of the option scan and the NaN entries of the
  pandas indicator series, both written out below).  The payloads of the API are
  typed records, so a missing key or a candle with fewer than six entries is not an
  input of the model.
\<close>

text \<open>A candle \<open>[timestamp, open, high, low, close, volume]\<close>; the source reads index 0 and 4.\<close>

record candle =
  c_timestamp :: int
  c_open :: real
  c_high :: real
  c_low :: real
  c_close :: real
  c_volume :: real

text \<open>One entry of \<open>option_chain['options_chain']\<close>.\<close>

record option_contract =
  symbol :: string
  option_type :: string
  strike_price :: real
  ltp :: real
  delta :: real

text \<open>The dictionary returned by \<open>FyersClient.get_option_chain\<close>.\<close>

record option_chain =
  options_chain :: "option_contract list"

datatype leg_action = SELL | BUY

record leg =
  action :: leg_action
  opt :: option_contract

datatype position_status = OPEN | CLOSED

record position =
  strategy :: string
  legs :: "leg list"
  entry_premium :: real
  margin_required :: real
  pnl :: real
  status :: position_status

text \<open>The dictionary a signal generator returns, \<open>{"signal": ..., "strategy": ...}\<close>.\<close>

record signal_details =
  signal :: string
  sig_strategy :: string

text \<open>
  The module \<open>config\<close> is not among the sources; the constants the code reads from it
  are parameters of the model.
\<close>

record config =
  CAPITAL_ALLOCATION_PERCENTAGE :: real
  SL_PERCENTAGE :: real
  TP_PERCENTAGE :: real
  INDIA_VIX_THRESHOLD :: real

text \<open>
  The ledger of \<open>Backtester\<close>.  \<open>self.trades\<close> and \<open>self.positions\<close> hold references to
  the same dictionaries, so a mutation through one is seen through the other.  The
  model keeps the dictionaries in \<open>trades\<close> (append-only, so an index is a stable
  address) and \<open>positions\<close> is the list of the addresses of the open set.
\<close>

record backtester =
  initial_capital :: real
  cash :: real
  positions :: "nat list"
  trades :: "position list"

datatype py_error = AttributeError | IndexError | ValueError | ZeroDivisionError

definition init_backtester :: "real \<Rightarrow> backtester" where
  "init_backtester capital =
     \<lparr>initial_capital = capital, cash = capital, positions = [], trades = []\<rparr>"

section \<open>Shared exit rule (\<open>Strategy.check_exit_conditions\<close>)\<close>

definition check_exit_conditions :: "real \<Rightarrow> real \<Rightarrow> position \<Rightarrow> string option" where
  "check_exit_conditions sl_pct tp_pct p =
     (let initial_premium = entry_premium p in
      if pnl p \<le> - 1 * sl_pct * initial_premium then Some ''SL''
      else if pnl p \<ge> tp_pct * initial_premium then Some ''TP''
      else None)"

section \<open>Option selector (\<open>Backtester._find_option\<close>)\<close>

text \<open>
  The loop carries \<open>best_option\<close> and \<open>min_delta_diff\<close>; the latter starts as
  \<open>float('inf')\<close>, written \<open>None\<close> here, below which every real lies.
\<close>

definition delta_diff :: "real \<Rightarrow> option_contract \<Rightarrow> real" where
  "delta_diff target_delta c = \<bar>\<bar>delta c\<bar> - target_delta\<bar>"

fun find_option_loop ::
  "option_contract list \<Rightarrow> real \<Rightarrow> string \<Rightarrow> option_contract option \<Rightarrow> real option
     \<Rightarrow> option_contract option" where
  "find_option_loop [] target_delta ty best_option min_delta_diff = best_option"
| "find_option_loop (c # rest) target_delta ty best_option min_delta_diff =
     (if option_type c \<noteq> ty then find_option_loop rest target_delta ty best_option min_delta_diff
      else if (case min_delta_diff of None \<Rightarrow> True | Some m \<Rightarrow> delta_diff target_delta c < m)
        then find_option_loop rest target_delta ty (Some c) (Some (delta_diff target_delta c))
        else find_option_loop rest target_delta ty best_option min_delta_diff)"

definition find_option :: "option_chain \<Rightarrow> real \<Rightarrow> string \<Rightarrow> option_contract option" where
  "find_option chain target_delta ty =
     find_option_loop (options_chain chain) target_delta ty None None"

section \<open>Trade execution (\<open>Backtester._execute_trade\<close>)\<close>

text \<open>
  The strategy branch of \<open>_execute_trade\<close>: the legs, the net premium and the margin,
  or \<open>None\<close> where the source returns early because a leg was not found.  A label that
  is none of the three leaves the initial values \<open>[]\<close>, \<open>0\<close>, \<open>0\<close>.
\<close>

definition build_legs :: "string \<Rightarrow> option_chain \<Rightarrow> (leg list \<times> real \<times> real) option" where
  "build_legs strategy_type chain =
     (if strategy_type = ''Bull Put Spread'' then
        (case (find_option chain 0.6 ''PE'', find_option chain 0.3 ''PE'') of
           (Some put_to_sell, Some put_to_buy) \<Rightarrow>
             (let net_premium = ltp put_to_sell - ltp put_to_buy in
              Some ([\<lparr>action = SELL, opt = put_to_sell\<rparr>, \<lparr>action = BUY, opt = put_to_buy\<rparr>],
                    net_premium,
                    (strike_price put_to_sell - strike_price put_to_buy) - net_premium))
         | _ \<Rightarrow> None)
      else if strategy_type = ''Bear Call Spread'' then
        (case (find_option chain 0.6 ''CE'', find_option chain 0.3 ''CE'') of
           (Some call_to_sell, Some call_to_buy) \<Rightarrow>
             (let net_premium = ltp call_to_sell - ltp call_to_buy in
              Some ([\<lparr>action = SELL, opt = call_to_sell\<rparr>, \<lparr>action = BUY, opt = call_to_buy\<rparr>],
                    net_premium,
                    (strike_price call_to_buy - strike_price call_to_sell) - net_premium))
         | _ \<Rightarrow> None)
      else if strategy_type = ''Short Straddle'' then
        (case (find_option chain 0.5 ''CE'', find_option chain 0.5 ''PE'') of
           (Some atm_call, Some atm_put) \<Rightarrow>
             Some ([\<lparr>action = SELL, opt = atm_call\<rparr>, \<lparr>action = SELL, opt = atm_put\<rparr>],
                   ltp atm_call + ltp atm_put,
                   max (strike_price atm_call) (strike_price atm_put) * 0.20)
         | _ \<Rightarrow> None)
      else Some ([], 0, 0))"

text \<open>
  \<open>fetched\<close> is what \<open>get_option_chain\<close> returned for this attempt (\<open>None\<close> when the
  chain is unavailable).  \<open>current_price\<close> is a parameter the source never reads.
\<close>

definition execute_trade ::
  "config \<Rightarrow> option_chain option \<Rightarrow> signal_details \<Rightarrow> real \<Rightarrow> backtester \<Rightarrow> backtester" where
  "execute_trade cfg fetched signal_details current_price bt =
     (case fetched of
        None \<Rightarrow> bt
      | Some chain \<Rightarrow>
         (case build_legs (sig_strategy signal_details) chain of
            None \<Rightarrow> bt
          | Some (trade_legs, net_premium, margin) \<Rightarrow>
              if margin \<le> 0 \<or> margin > cash bt then bt
              else if margin > initial_capital bt * CAPITAL_ALLOCATION_PERCENTAGE cfg then bt
              else bt\<lparr>positions := positions bt @ [length (trades bt)],
                      cash := cash bt - margin,
                      trades := trades bt @
                        [\<lparr>strategy = sig_strategy signal_details, legs = trade_legs,
                          entry_premium = net_premium, margin_required = margin,
                          pnl = 0, status = OPEN\<rparr>]\<rparr>))"

section \<open>End-of-day settlement (\<open>Backtester._handle_eod_exits\<close>)\<close>

text \<open>
  The inner loop over the legs.  \<open>fetch sym\<close> is what \<open>get_historical_data\<close> returns
  for the option symbol on the settlement day; the empty list is the unobtainable
  price, on which the source sets \<open>all_legs_found = False\<close> and breaks (\<open>None\<close> here).
\<close>

fun net_premium_loop :: "(string \<Rightarrow> candle list) \<Rightarrow> leg list \<Rightarrow> real \<Rightarrow> real option" where
  "net_premium_loop fetch [] current_net_premium = Some current_net_premium"
| "net_premium_loop fetch (l # rest) current_net_premium =
     (case fetch (symbol (opt l)) of
        [] \<Rightarrow> None
      | c # _ \<Rightarrow>
          if action l = SELL then net_premium_loop fetch rest (current_net_premium - c_close c)
          else net_premium_loop fetch rest (current_net_premium + c_close c))"

text \<open>
  \<open>self.positions.remove(position)\<close>: Python removes the first element that is equal to
  the argument, and dictionaries are equal when their contents are; it raises
  \<open>ValueError\<close> when there is none.
\<close>

fun list_remove :: "position list \<Rightarrow> position \<Rightarrow> nat list \<Rightarrow> py_error + nat list" where
  "list_remove store v [] = Inl ValueError"
| "list_remove store v (j # js) =
     (if store ! j = v then Inr js
      else (case list_remove store v js of Inl e \<Rightarrow> Inl e | Inr js' \<Rightarrow> Inr (j # js')))"

text \<open>The body of the loop over the snapshot \<open>self.positions[:]\<close>, for the position at address \<open>i\<close>.\<close>

definition settle_position ::
  "real \<Rightarrow> real \<Rightarrow> (string \<Rightarrow> candle list) \<Rightarrow> nat \<Rightarrow> backtester \<Rightarrow> py_error + backtester" where
  "settle_position sl_pct tp_pct fetch i bt =
     (let p = trades bt ! i in
      if status p = OPEN then
        (case net_premium_loop fetch (legs p) 0 of
           None \<Rightarrow> Inr bt
         | Some current_net_premium \<Rightarrow>
            (let new_pnl = entry_premium p - current_net_premium;
                 p1 = p\<lparr>pnl := new_pnl\<rparr>
             in case check_exit_conditions sl_pct tp_pct p1 of
                  None \<Rightarrow> Inr (bt\<lparr>trades := (trades bt)[i := p1]\<rparr>)
                | Some exit_signal \<Rightarrow>
                   (let p2 = p1\<lparr>status := CLOSED\<rparr>;
                        store = (trades bt)[i := p2]
                    in case list_remove store p2 (positions bt) of
                         Inl e \<Rightarrow> Inl e
                       | Inr ps \<Rightarrow>
                           Inr (bt\<lparr>trades := store,
                                   cash := cash bt + (margin_required p2 + new_pnl),
                                   positions := ps\<rparr>))))
      else Inr bt)"

fun settle_all ::
  "real \<Rightarrow> real \<Rightarrow> (string \<Rightarrow> candle list) \<Rightarrow> nat list \<Rightarrow> backtester \<Rightarrow> py_error + backtester" where
  "settle_all sl_pct tp_pct fetch [] bt = Inr bt"
| "settle_all sl_pct tp_pct fetch (i # snapshot) bt =
     (case settle_position sl_pct tp_pct fetch i bt of
        Inl e \<Rightarrow> Inl e
      | Inr bt' \<Rightarrow> settle_all sl_pct tp_pct fetch snapshot bt')"

text \<open>
  \<open>get_historical_data\<close> takes the symbol and the day; \<open>date_to_check\<close> is \<open>None\<close> when
  the caller passes the \<open>prev_day\<close> it never assigned, and then
  \<open>date_to_check.strftime\<close> raises \<open>AttributeError\<close>.  The exit rule is the one of
  \<open>dir_strategy\<close>, whose fractions default to the configuration's.
\<close>

definition handle_eod_exits ::
  "config \<Rightarrow> (string \<Rightarrow> int \<Rightarrow> candle list) \<Rightarrow> int option \<Rightarrow> backtester \<Rightarrow> py_error + backtester" where
  "handle_eod_exits cfg get_historical_data date_to_check bt =
     (case date_to_check of
        None \<Rightarrow> Inl AttributeError
      | Some d \<Rightarrow>
          settle_all (SL_PERCENTAGE cfg) (TP_PERCENTAGE cfg) (\<lambda>option_symbol. get_historical_data option_symbol d)
            (positions bt) bt)"

section \<open>Sequences of ledger operations\<close>

text \<open>
  The two operations that touch the ledger, with what the data provider answered:
  an entry attempt with the fetched chain, and a settlement of a day.
\<close>

datatype ledger_op =
  Entry "option_chain option" signal_details real
| Settle "string \<Rightarrow> int \<Rightarrow> candle list" int

fun apply_op :: "config \<Rightarrow> ledger_op \<Rightarrow> backtester \<Rightarrow> py_error + backtester" where
  "apply_op cfg (Entry fetched sg price) bt = Inr (execute_trade cfg fetched sg price bt)"
| "apply_op cfg (Settle hist d) bt = handle_eod_exits cfg hist (Some d) bt"

fun run_ops :: "config \<Rightarrow> ledger_op list \<Rightarrow> backtester \<Rightarrow> py_error + backtester" where
  "run_ops cfg [] bt = Inr bt"
| "run_ops cfg (x # xs) bt =
     (case apply_op cfg x bt of Inl e \<Rightarrow> Inl e | Inr bt' \<Rightarrow> run_ops cfg xs bt')"





section \<open>Indicators (\<open>indicators.py\<close>)\<close>

text \<open>
  A pandas series of floats is a list of \<open>real option\<close>, \<open>None\<close> being NaN.
  \<open>rolling(window).mean()\<close> is NaN until the window is full, then the mean of the last
  \<open>window\<close> entries.  The periods are positive in every use; a window of 0 has only
  NaN entries here.
\<close>

definition rolling_mean :: "nat \<Rightarrow> real list \<Rightarrow> real option list" where
  "rolling_mean window xs =
     map (\<lambda>i. if window = 0 \<or> i + 1 < window then None
               else Some (sum_list (take window (drop (i + 1 - window) xs)) / real window))
       [0..<length xs]"

definition calculate_sma :: "candle list \<Rightarrow> nat \<Rightarrow> real option list option" where
  "calculate_sma data period =
     (if length data < period then None
      else Some (rolling_mean period (map c_close data)))"

text \<open>\<open>Series.diff()\<close>: NaN first, then the difference to the predecessor.\<close>

fun diff_series :: "real list \<Rightarrow> real option list" where
  "diff_series [] = []"
| "diff_series (x # xs) = None # map (\<lambda>(a, b). Some (b - a)) (zip (x # xs) xs)"

text \<open>
  \<open>delta.where(delta > 0, 0)\<close> keeps an entry where the test holds and puts 0 elsewhere,
  also where the entry is NaN; \<open>loss\<close> negates the kept negative entries.
\<close>

definition gain_of :: "real option \<Rightarrow> real" where
  "gain_of d = (case d of None \<Rightarrow> 0 | Some v \<Rightarrow> if v > 0 then v else 0)"

definition loss_of :: "real option \<Rightarrow> real" where
  "loss_of d = - (case d of None \<Rightarrow> 0 | Some v \<Rightarrow> if v < 0 then v else 0)"

text \<open>
  \<open>100 - (100 / (1 + gain / loss))\<close> on floats: NaN if an operand is NaN; with
  \<open>loss = 0\<close> the quotient is NaN for \<open>gain = 0\<close> and infinite otherwise, and
  \<open>100 / (1 + inf)\<close> is 0.
\<close>

definition rsi_value :: "real option \<Rightarrow> real option \<Rightarrow> real option" where
  "rsi_value gain loss =
     (case (gain, loss) of
        (Some g, Some l) \<Rightarrow>
          if l = 0 then (if g = 0 then None else Some 100)
          else Some (100 - (100 / (1 + g / l)))
      | _ \<Rightarrow> None)"

definition calculate_rsi :: "candle list \<Rightarrow> nat \<Rightarrow> real option list option" where
  "calculate_rsi data period =
     (if length data < period then None
      else
        (let dlt = diff_series (map c_close data);
             gain = rolling_mean period (map gain_of dlt);
             loss = rolling_mean period (map loss_of dlt)
         in Some (map (\<lambda>(g, l). rsi_value g l) (zip gain loss))))"

section \<open>Signal generators (\<open>strategies.py\<close>)\<close>

record directional_strategy =
  short_ma_period :: nat
  long_ma_period :: nat
  rsi_period :: nat

text \<open>\<open>series.iloc[-k]\<close> for \<open>k > 0\<close>; out of bounds it raises \<open>IndexError\<close>.\<close>

definition iloc_neg :: "'a list \<Rightarrow> nat \<Rightarrow> py_error + 'a" where
  "iloc_neg xs k =
     (if 0 < k \<and> k \<le> length xs then Inr (xs ! (length xs - k)) else Inl IndexError)"

text \<open>Comparisons of floats: false as soon as one side is NaN.\<close>

definition nan_le :: "real option \<Rightarrow> real option \<Rightarrow> bool" where
  "nan_le a b = (case (a, b) of (Some x, Some y) \<Rightarrow> x \<le> y | _ \<Rightarrow> False)"

definition nan_less :: "real option \<Rightarrow> real option \<Rightarrow> bool" where
  "nan_less a b = (case (a, b) of (Some x, Some y) \<Rightarrow> x < y | _ \<Rightarrow> False)"

definition bull_put_spread :: signal_details where
  "bull_put_spread = \<lparr>signal = ''BUY'', sig_strategy = ''Bull Put Spread''\<rparr>"

definition bear_call_spread :: signal_details where
  "bear_call_spread = \<lparr>signal = ''SELL'', sig_strategy = ''Bear Call Spread''\<rparr>"

definition short_straddle :: signal_details where
  "short_straddle = \<lparr>signal = ''SELL'', sig_strategy = ''Short Straddle''\<rparr>"

text \<open>The decision of \<open>DirectionalStrategy.check_entry_signal\<close> on the five values read.\<close>

definition crossover_signal ::
  "real option \<Rightarrow> real option \<Rightarrow> real option \<Rightarrow> real option \<Rightarrow> real option
     \<Rightarrow> signal_details option" where
  "crossover_signal last_short_ma last_long_ma prev_short_ma prev_long_ma last_rsi =
     (let is_bullish_momentum = nan_less (Some 50) last_rsi;
          is_bearish_momentum = nan_less last_rsi (Some 50)
      in if nan_le prev_short_ma prev_long_ma \<and> nan_less last_long_ma last_short_ma
            \<and> is_bullish_momentum
         then Some bull_put_spread
         else if nan_le prev_long_ma prev_short_ma \<and> nan_less last_short_ma last_long_ma
            \<and> is_bearish_momentum
         then Some bear_call_spread
         else None)"

definition check_entry_signal ::
  "directional_strategy \<Rightarrow> candle list \<Rightarrow> py_error + signal_details option" where
  "check_entry_signal dir data =
     (case (calculate_sma data (short_ma_period dir), calculate_sma data (long_ma_period dir),
            calculate_rsi data (rsi_period dir)) of
        (Some short_ma, Some long_ma, Some rsi) \<Rightarrow>
          (case iloc_neg short_ma 1 of Inl e \<Rightarrow> Inl e | Inr last_short_ma \<Rightarrow>
          (case iloc_neg long_ma 1 of Inl e \<Rightarrow> Inl e | Inr last_long_ma \<Rightarrow>
          (case iloc_neg short_ma 2 of Inl e \<Rightarrow> Inl e | Inr prev_short_ma \<Rightarrow>
          (case iloc_neg long_ma 2 of Inl e \<Rightarrow> Inl e | Inr prev_long_ma \<Rightarrow>
          (case iloc_neg rsi 1 of Inl e \<Rightarrow> Inl e | Inr last_rsi \<Rightarrow>
             Inr (crossover_signal last_short_ma last_long_ma prev_short_ma prev_long_ma
                    last_rsi))))))
      | _ \<Rightarrow> Inr None)"

definition nd_check_entry_signal :: "config \<Rightarrow> real \<Rightarrow> signal_details option" where
  "nd_check_entry_signal cfg vix_value =
     (if vix_value > INDIA_VIX_THRESHOLD cfg then Some short_straddle else None)"

section \<open>Simulation loop (\<open>Backtester.run_backtest\<close>)\<close>

text \<open>
  The data provider as the loop sees it: the answer to the \<open>n\<close>-th option-chain
  request, the daily candles of a symbol on a day, and the local calendar day of a
  timestamp (\<open>datetime.fromtimestamp(ts).date()\<close>, which depends on the time zone and
  is taken as defined for every timestamp of the series).
\<close>

record provider =
  option_chain_at :: "nat \<Rightarrow> option_chain option"
  daily_candles :: "string \<Rightarrow> int \<Rightarrow> candle list"
  date_of :: "int \<Rightarrow> int"

record loop_state =
  ledger :: backtester
  prev_day :: "int option"
  chain_calls :: nat

text \<open>\<open>{candle[0]: candle[4] for candle in vix_data}\<close>: a later candle overrides an earlier one.\<close>

definition vix_map_of :: "candle list \<Rightarrow> (int \<rightharpoonup> real)" where
  "vix_map_of vix_data = foldl (\<lambda>m c. m(c_timestamp c \<mapsto> c_close c)) Map.empty vix_data"

definition attempt_trade ::
  "config \<Rightarrow> provider \<Rightarrow> signal_details \<Rightarrow> real \<Rightarrow> backtester \<times> nat \<Rightarrow> backtester \<times> nat" where
  "attempt_trade cfg pr sg current_price s =
     (execute_trade cfg (option_chain_at pr (snd s)) sg current_price (fst s), Suc (snd s))"

text \<open>
  Lines 63 to 68: \<open>if current_vix:\<close> is a truthiness test, false for \<open>None\<close> and for a
  number equal to 0.
\<close>

definition non_directional_step ::
  "config \<Rightarrow> provider \<Rightarrow> real option \<Rightarrow> real \<Rightarrow> backtester \<times> nat \<Rightarrow> backtester \<times> nat" where
  "non_directional_step cfg pr current_vix current_price s =
     (case current_vix of
        None \<Rightarrow> s
      | Some v \<Rightarrow>
          if v \<noteq> 0 then
            (case nd_check_entry_signal cfg v of
               None \<Rightarrow> s
             | Some non_dir_signal \<Rightarrow> attempt_trade cfg pr non_dir_signal current_price s)
          else s)"

definition loop_body ::
  "config \<Rightarrow> directional_strategy \<Rightarrow> provider \<Rightarrow> candle list \<Rightarrow> (int \<rightharpoonup> real) \<Rightarrow> nat
     \<Rightarrow> loop_state \<Rightarrow> py_error + loop_state" where
  "loop_body cfg dir pr underlying_data vix_map i s =
     (if i < long_ma_period dir then Inr s
      else
        (let current_candle = underlying_data ! i;
             current_timestamp = c_timestamp current_candle;
             current_price = c_close current_candle;
             current_day = date_of pr current_timestamp
         in case (if prev_day s \<noteq> None \<and> Some current_day \<noteq> prev_day s
                  then handle_eod_exits cfg (daily_candles pr) (prev_day s) (ledger s)
                  else Inr (ledger s)) of
              Inl e \<Rightarrow> Inl e
            | Inr bt1 \<Rightarrow>
               (case check_entry_signal dir (take (i + 1) underlying_data) of
                  Inl e \<Rightarrow> Inl e
                | Inr dir_signal \<Rightarrow>
                   (let s2 = (case dir_signal of
                                None \<Rightarrow> (bt1, chain_calls s)
                              | Some sg \<Rightarrow>
                                  attempt_trade cfg pr sg current_price (bt1, chain_calls s));
                        s3 = non_directional_step cfg pr (vix_map current_timestamp)
                               current_price s2
                    in Inr \<lparr>ledger = fst s3, prev_day = Some current_day,
                            chain_calls = snd s3\<rparr>))))"

fun backtest_loop ::
  "config \<Rightarrow> directional_strategy \<Rightarrow> provider \<Rightarrow> candle list \<Rightarrow> (int \<rightharpoonup> real) \<Rightarrow> nat list
     \<Rightarrow> loop_state \<Rightarrow> py_error + loop_state" where
  "backtest_loop cfg dir pr underlying_data vix_map [] s = Inr s"
| "backtest_loop cfg dir pr underlying_data vix_map (i # rest) s =
     (case loop_body cfg dir pr underlying_data vix_map i s of
        Inl e \<Rightarrow> Inl e
      | Inr s' \<Rightarrow> backtest_loop cfg dir pr underlying_data vix_map rest s')"

record report =
  r_initial_capital :: real
  r_final_capital :: real
  r_total_pnl :: real
  r_pnl_pct :: real
  r_num_trades :: nat
  r_num_wins :: nat
  r_num_losses :: nat
  r_win_rate :: real

definition generate_report :: "backtester \<Rightarrow> py_error + report" where
  "generate_report bt =
     (let final_capital = cash bt;
          total_pnl = final_capital - initial_capital bt
      in if initial_capital bt = 0 then Inl ZeroDivisionError
         else
          (let num_trades = length (trades bt);
               num_wins = length (filter (\<lambda>t. pnl t > 0) (trades bt));
               num_losses = length (filter (\<lambda>t. pnl t \<le> 0) (trades bt))
           in Inr \<lparr>r_initial_capital = initial_capital bt, r_final_capital = final_capital,
                   r_total_pnl = total_pnl,
                   r_pnl_pct = (total_pnl / initial_capital bt) * 100,
                   r_num_trades = num_trades, r_num_wins = num_wins,
                   r_num_losses = num_losses,
                   r_win_rate = (if num_trades > 0
                                 then (real num_wins / real num_trades) * 100 else 0)\<rparr>))"

text \<open>
  \<open>underlying_data\<close> and \<open>vix_data\<close> are the two series fetched at the start.  The result
  is an exception, no report (the abort on an empty series), or the final ledger with
  its report.
\<close>

definition run_backtest ::
  "config \<Rightarrow> directional_strategy \<Rightarrow> provider \<Rightarrow> real \<Rightarrow> candle list \<Rightarrow> candle list
     \<Rightarrow> py_error + (backtester \<times> report) option" where
  "run_backtest cfg dir pr capital underlying_data vix_data =
     (if underlying_data = [] \<or> vix_data = [] then Inr None
      else
        (case backtest_loop cfg dir pr underlying_data (vix_map_of vix_data)
                [0..<length underlying_data]
                \<lparr>ledger = init_backtester capital, prev_day = None, chain_calls = 0\<rparr> of
           Inl e \<Rightarrow> Inl e
         | Inr s \<Rightarrow>
            (case handle_eod_exits cfg (daily_candles pr) (prev_day s) (ledger s) of
               Inl e \<Rightarrow> Inl e
             | Inr bt \<Rightarrow>
                (case generate_report bt of
                   Inl e \<Rightarrow> Inl e
                 | Inr r \<Rightarrow> Inr (Some (bt, r))))))"

section \<open>Predicates of the ledger used in the statements\<close>

text \<open>The fields of a position that are assigned at creation.\<close>

definition terms_of :: "position \<Rightarrow> string \<times> leg list \<times> real \<times> real" where
  "terms_of p = (strategy p, legs p, entry_premium p, margin_required p)"



section \<open>Worked inputs\<close>

text \<open>
  A chain of two puts, the configuration the specification quotes, closing prices equal
  to the last-traded prices (\<open>ex_history\<close>) and with one leg missing
  (\<open>ex_history_missing\<close>), and short candle series.
\<close>

definition ex_candle :: "int \<Rightarrow> real \<Rightarrow> candle" where
  "ex_candle ts price =
     \<lparr>c_timestamp = ts, c_open = price, c_high = price, c_low = price, c_close = price,
      c_volume = 0\<rparr>"

definition ex_put_sell :: option_contract where
  "ex_put_sell =
     \<lparr>symbol = ''P1'', option_type = ''PE'', strike_price = 100, ltp = 10, delta = - 0.6\<rparr>"

definition ex_put_buy :: option_contract where
  "ex_put_buy =
     \<lparr>symbol = ''P2'', option_type = ''PE'', strike_price = 90, ltp = 4, delta = - 0.3\<rparr>"

definition ex_chain :: option_chain where
  "ex_chain = \<lparr>options_chain = [ex_put_sell, ex_put_buy]\<rparr>"

definition ex_wide_chain :: option_chain where
  "ex_wide_chain = \<lparr>options_chain =
     [ex_put_sell\<lparr>strike_price := 15000\<rparr>, ex_put_buy\<lparr>strike_price := 9994\<rparr>]\<rparr>"

definition ex_config :: config where
  "ex_config = \<lparr>CAPITAL_ALLOCATION_PERCENTAGE = 0.1, SL_PERCENTAGE = 0.2, TP_PERCENTAGE = 0.8,
     INDIA_VIX_THRESHOLD = 18\<rparr>"

definition ex_history :: "string \<Rightarrow> int \<Rightarrow> candle list" where
  "ex_history y d =
     (if y = ''P1'' then [ex_candle 0 10] else if y = ''P2'' then [ex_candle 0 4] else [])"

definition ex_history_missing :: "string \<Rightarrow> int \<Rightarrow> candle list" where
  "ex_history_missing y d = (if y = ''P1'' then [ex_candle 0 10] else [])"

definition ex_position :: position where
  "ex_position =
     \<lparr>strategy = ''Bull Put Spread'',
      legs = [\<lparr>action = SELL, opt = ex_put_sell\<rparr>, \<lparr>action = BUY, opt = ex_put_buy\<rparr>],
      entry_premium = 6, margin_required = 4, pnl = 0, status = OPEN\<rparr>"

definition ex_open_ledger :: backtester where
  "ex_open_ledger =
     \<lparr>initial_capital = 1000, cash = 996, positions = [0], trades = [ex_position]\<rparr>"

definition ex_provider :: provider where
  "ex_provider = \<lparr>option_chain_at = (\<lambda>n. Some ex_chain), daily_candles = ex_history,
     date_of = (\<lambda>ts. ts div 86400)\<rparr>"

definition ex_dir :: directional_strategy where
  "ex_dir = \<lparr>short_ma_period = 1, long_ma_period = 2, rsi_period = 1\<rparr>"


definition ex_flat :: "candle list" where
  "ex_flat = [ex_candle 0 3, ex_candle 1 3, ex_candle 2 3]"

section \<open>The exit rule\<close>


section \<open>The option selector\<close>





section \<open>What the ledger operations keep\<close>

lemma terms_of_update [simp]:
  "terms_of (p\<lparr>pnl := x\<rparr>) = terms_of p" "terms_of (p\<lparr>status := s\<rparr>) = terms_of p"
  by (simp_all add: terms_of_def)

lemma map_terms_update:
  "terms_of q = terms_of (xs ! i) \<Longrightarrow> map terms_of (xs[i := q]) = map terms_of xs"
proof (cases "i < length xs")
  case True
  assume "terms_of q = terms_of (xs ! i)"
  with True show ?thesis by (simp add: map_update list_update_same_conv)
next
  case False
  then show ?thesis by (simp add: list_update_beyond)
qed

lemma settle_position_cases:
  assumes "settle_position sl tp f i bt = Inr bt'"
  shows "bt' = bt
    \<or> (status (trades bt ! i) = OPEN \<and>
        (\<exists>x. bt' = bt\<lparr>trades := (trades bt)[i := (trades bt ! i)\<lparr>pnl := x\<rparr>]\<rparr>))
    \<or> (status (trades bt ! i) = OPEN \<and>
        (\<exists>x ps. list_remove ((trades bt)[i := (trades bt ! i)\<lparr>pnl := x, status := CLOSED\<rparr>])
                   ((trades bt ! i)\<lparr>pnl := x, status := CLOSED\<rparr>) (positions bt) = Inr ps
          \<and> bt' = bt\<lparr>trades := (trades bt)[i := (trades bt ! i)\<lparr>pnl := x, status := CLOSED\<rparr>],
                      cash := cash bt + (margin_required (trades bt ! i) + x),
                      positions := ps\<rparr>))"
  using assms
  by (auto simp: settle_position_def Let_def split: if_splits option.splits sum.splits)

lemma list_remove_subset:
  "list_remove store v ps = Inr ps' \<Longrightarrow> set ps' \<subseteq> set ps"
  by (induction ps arbitrary: ps') (auto split: if_splits sum.splits)

lemma list_remove_keeps:
  "list_remove store v ps = Inr ps' \<Longrightarrow> i \<in> set ps \<Longrightarrow> store ! i \<noteq> v \<Longrightarrow> i \<in> set ps'"
  by (induction ps arbitrary: ps') (auto split: if_splits sum.splits)


subsection \<open>The fields fixed at creation\<close>

lemma settle_position_frame:
  assumes "settle_position sl tp f i bt = Inr bt'"
  shows "map terms_of (trades bt') = map terms_of (trades bt)
         \<and> initial_capital bt' = initial_capital bt"
  using settle_position_cases[OF assms]
  by (auto simp: map_terms_update)

lemma settle_all_frame:
  "settle_all sl tp f snapshot bt = Inr bt' \<Longrightarrow>
     map terms_of (trades bt') = map terms_of (trades bt)
     \<and> initial_capital bt' = initial_capital bt"
proof (induction snapshot arbitrary: bt)
  case Nil
  then show ?case by simp
next
  case (Cons i snapshot)
  then obtain bt1 where s: "settle_position sl tp f i bt = Inr bt1"
    and r: "settle_all sl tp f snapshot bt1 = Inr bt'"
    by (auto split: sum.splits)
  from Cons.IH[OF r] settle_position_frame[OF s] show ?case by simp
qed

lemma handle_eod_exits_frame:
  "handle_eod_exits cfg hist d bt = Inr bt' \<Longrightarrow>
     map terms_of (trades bt') = map terms_of (trades bt)
     \<and> initial_capital bt' = initial_capital bt"
  by (auto simp: handle_eod_exits_def split: option.splits dest: settle_all_frame)

lemma execute_trade_cases:
  "execute_trade cfg fetched sg price bt = bt
   \<or> (\<exists>lg np m. 0 < m \<and> m \<le> cash bt \<and> m \<le> initial_capital bt * CAPITAL_ALLOCATION_PERCENTAGE cfg
        \<and> execute_trade cfg fetched sg price bt =
            bt\<lparr>positions := positions bt @ [length (trades bt)],
               cash := cash bt - m,
               trades := trades bt @
                 [\<lparr>strategy = sig_strategy sg, legs = lg, entry_premium = np,
                   margin_required = m, pnl = 0, status = OPEN\<rparr>]\<rparr>)"
proof (cases fetched)
  case None
  then show ?thesis by (simp add: execute_trade_def)
next
  case (Some chain)
  show ?thesis
  proof (cases "build_legs (sig_strategy sg) chain")
    case None
    with Some show ?thesis by (simp add: execute_trade_def)
  next
    case built: (Some t)
    obtain lg np m where t: "t = (lg, np, m)" by (cases t)
    show ?thesis
    proof (cases "m \<le> 0 \<or> m > cash bt
                  \<or> m > initial_capital bt * CAPITAL_ALLOCATION_PERCENTAGE cfg")
      case True
      with Some built t show ?thesis by (auto simp: execute_trade_def)
    next
      case False
      with Some built t
      have "execute_trade cfg fetched sg price bt =
            bt\<lparr>positions := positions bt @ [length (trades bt)],
               cash := cash bt - m,
               trades := trades bt @
                 [\<lparr>strategy = sig_strategy sg, legs = lg, entry_premium = np,
                   margin_required = m, pnl = 0, status = OPEN\<rparr>]\<rparr>"
        by (simp add: execute_trade_def)
      moreover from False have "0 < m" "m \<le> cash bt"
        "m \<le> initial_capital bt * CAPITAL_ALLOCATION_PERCENTAGE cfg" by auto
      ultimately show ?thesis by blast
    qed
  qed
qed

lemma execute_trade_frame:
  "\<exists>ps. map terms_of (trades (execute_trade cfg fetched sg price bt)) = map terms_of (trades bt) @ ps"
  using execute_trade_cases[of cfg fetched sg price bt] by auto

lemma execute_trade_capital:
  "initial_capital (execute_trade cfg fetched sg price bt) = initial_capital bt"
  using execute_trade_cases[of cfg fetched sg price bt] by auto

lemma apply_op_frame:
  "apply_op cfg x bt = Inr bt' \<Longrightarrow>
    (\<exists>ps. map terms_of (trades bt') = map terms_of (trades bt) @ ps)
     \<and> initial_capital bt' = initial_capital bt"
proof (cases x)
  case (Entry fetched sg price)
  assume "apply_op cfg x bt = Inr bt'"
  with Entry execute_trade_frame[of cfg fetched sg price bt] execute_trade_capital[of cfg fetched sg price bt]
  show ?thesis by auto
next
  case (Settle hist d)
  assume "apply_op cfg x bt = Inr bt'"
  with Settle handle_eod_exits_frame[of cfg hist "Some d" bt bt'] show ?thesis by simp
qed

lemma run_ops_frame:
  "run_ops cfg ops bt = Inr bt' \<Longrightarrow>
    (\<exists>ps. map terms_of (trades bt') = map terms_of (trades bt) @ ps)
     \<and> initial_capital bt' = initial_capital bt"
proof (induction ops arbitrary: bt)
  case Nil
  then show ?case by simp
next
  case (Cons x xs)
  then obtain bt1 where s: "apply_op cfg x bt = Inr bt1" and r: "run_ops cfg xs bt1 = Inr bt'"
    by (auto split: sum.splits)
  from apply_op_frame[OF s] Cons.IH[OF r] show ?case by auto
qed

lemma frame_nth:
  assumes "map terms_of ys = map terms_of xs @ ps" "k < length xs"
  shows "k < length ys \<and> terms_of (ys ! k) = terms_of (xs ! k)"
proof -
  have "length ys = length xs + length ps"
    using assms(1) by (metis length_append length_map)
  with assms(2) have k: "k < length ys" by simp
  have "map terms_of ys ! k = map terms_of xs ! k"
    using assms by (simp add: nth_append)
  with k assms(2) show ?thesis by simp
qed

section \<open>Cash and the open set\<close>























section \<open>The invariant along the simulation loop\<close>









section \<open>Skipped settlements, margins and the frame\<close>

lemma net_premium_loop_None_iff:
  "net_premium_loop f ls acc = None \<longleftrightarrow> (\<exists>l\<in>set ls. f (symbol (opt l)) = [])"
  by (induction ls arbitrary: acc) (auto split: list.splits)

lemma settle_position_skip:
  assumes "net_premium_loop f (legs (trades bt ! i)) 0 = None"
  shows "settle_position sl tp f i bt = Inr bt"
  using assms by (simp add: settle_position_def Let_def)

lemma settle_position_keeps:
  assumes s: "settle_position sl tp f k bt = Inr bt'"
    and op: "status (trades bt ! i) = OPEN"
    and un: "net_premium_loop f (legs (trades bt ! i)) 0 = None"
  shows "trades bt' ! i = trades bt ! i \<and> (i \<in> set (positions bt) \<longrightarrow> i \<in> set (positions bt'))"
proof (cases "k = i")
  case True
  with s un have "bt' = bt" by (simp add: settle_position_skip)
  then show ?thesis by simp
next
  case False
  from settle_position_cases[OF s] show ?thesis
  proof (elim disjE conjE exE)
    assume "bt' = bt"
    then show ?thesis by simp
  next
    fix x assume "bt' = bt\<lparr>trades := (trades bt)[k := (trades bt ! k)\<lparr>pnl := x\<rparr>]\<rparr>"
    with False show ?thesis by simp
  next
    fix x ps
    let ?q = "(trades bt ! k)\<lparr>pnl := x, status := CLOSED\<rparr>"
    assume rm: "list_remove ((trades bt)[k := ?q]) ?q (positions bt) = Inr ps"
      and e: "bt' = bt\<lparr>trades := (trades bt)[k := ?q],
                      cash := cash bt + (margin_required (trades bt ! k) + x),
                      positions := ps\<rparr>"
    have same: "(trades bt)[k := ?q] ! i = trades bt ! i" using False by simp
    have "status ((trades bt)[k := ?q] ! i) \<noteq> status ?q" using same op by simp
    then have ne: "(trades bt)[k := ?q] ! i \<noteq> ?q" by metis
    have "i \<in> set (positions bt) \<longrightarrow> i \<in> set ps"
      using list_remove_keeps[OF rm _ ne] by blast
    with e same show ?thesis by simp
  qed
qed

lemma settle_all_keeps:
  "settle_all sl tp f snapshot bt = Inr bt' \<Longrightarrow> status (trades bt ! i) = OPEN
    \<Longrightarrow> net_premium_loop f (legs (trades bt ! i)) 0 = None
    \<Longrightarrow> trades bt' ! i = trades bt ! i \<and> (i \<in> set (positions bt) \<longrightarrow> i \<in> set (positions bt'))"
proof (induction snapshot arbitrary: bt)
  case Nil
  then show ?case by simp
next
  case (Cons k snapshot)
  then obtain bt1 where s: "settle_position sl tp f k bt = Inr bt1"
    and r: "settle_all sl tp f snapshot bt1 = Inr bt'"
    by (auto split: sum.splits)
  from settle_position_keeps[OF s Cons.prems(2,3)]
  have k: "trades bt1 ! i = trades bt ! i" "i \<in> set (positions bt) \<longrightarrow> i \<in> set (positions bt1)"
    by simp_all
  from Cons.IH[OF r] k Cons.prems(2,3) show ?case by simp
qed

text \<open>
  C5.  If the closing price of one leg of an open position is unobtainable on the
  settlement day, the settlement of that position changes nothing (in particular not
  the cash), and after the settlement of the whole open set the position is as it was:
  same pnl, status open, still in the open set.
\<close>

theorem unobtainable_leg_skips_position:
  assumes "i \<in> set (positions bt)" "status (trades bt ! i) = OPEN"
    and "l \<in> set (legs (trades bt ! i))" "hist (symbol (opt l)) d = []"
  shows "settle_position (SL_PERCENTAGE cfg) (TP_PERCENTAGE cfg) (\<lambda>y. hist y d) i bt = Inr bt
    \<and> (\<forall>bt'. handle_eod_exits cfg hist (Some d) bt = Inr bt' \<longrightarrow>
          trades bt' ! i = trades bt ! i \<and> pnl (trades bt' ! i) = pnl (trades bt ! i)
          \<and> status (trades bt' ! i) = OPEN \<and> i \<in> set (positions bt'))"
proof -
  have un: "net_premium_loop (\<lambda>y. hist y d) (legs (trades bt ! i)) 0 = None"
    using assms(3,4) net_premium_loop_None_iff by blast
  have "settle_position (SL_PERCENTAGE cfg) (TP_PERCENTAGE cfg) (\<lambda>y. hist y d) i bt = Inr bt"
    using un by (rule settle_position_skip)
  moreover have "\<forall>bt'. handle_eod_exits cfg hist (Some d) bt = Inr bt' \<longrightarrow>
          trades bt' ! i = trades bt ! i \<and> pnl (trades bt' ! i) = pnl (trades bt ! i)
          \<and> status (trades bt' ! i) = OPEN \<and> i \<in> set (positions bt')"
  proof (intro allI impI)
    fix bt' assume "handle_eod_exits cfg hist (Some d) bt = Inr bt'"
    then have "settle_all (SL_PERCENTAGE cfg) (TP_PERCENTAGE cfg) (\<lambda>y. hist y d) (positions bt) bt = Inr bt'"
      by (simp add: handle_eod_exits_def)
    from settle_all_keeps[OF this assms(2) un] assms(1,2)
    show "trades bt' ! i = trades bt ! i \<and> pnl (trades bt' ! i) = pnl (trades bt ! i)
          \<and> status (trades bt' ! i) = OPEN \<and> i \<in> set (positions bt')" by simp
  qed
  ultimately show ?thesis by blast
qed

subsection \<open>Margins\<close>








text \<open>
  C9.  The end-of-day settlement keeps the length of the trade history and the initial
  capital, and for every position the strategy label, the legs, the entry premium and
  the margin; the same four fields of an existing position survive every sequence of
  entries and settlements.
\<close>

theorem settlement_frame:
  "(handle_eod_exits cfg hist d bt = Inr bt1 \<longrightarrow>
      length (trades bt1) = length (trades bt) \<and> initial_capital bt1 = initial_capital bt
      \<and> (\<forall>k<length (trades bt). strategy (trades bt1 ! k) = strategy (trades bt ! k)
             \<and> legs (trades bt1 ! k) = legs (trades bt ! k)
             \<and> entry_premium (trades bt1 ! k) = entry_premium (trades bt ! k)
             \<and> margin_required (trades bt1 ! k) = margin_required (trades bt ! k)))
   \<and> (run_ops cfg ops bt = Inr bt2 \<and> k < length (trades bt) \<longrightarrow>
        k < length (trades bt2)
        \<and> strategy (trades bt2 ! k) = strategy (trades bt ! k)
        \<and> legs (trades bt2 ! k) = legs (trades bt ! k)
        \<and> entry_premium (trades bt2 ! k) = entry_premium (trades bt ! k)
        \<and> margin_required (trades bt2 ! k) = margin_required (trades bt ! k))"
proof (rule conjI; rule impI)
  assume h: "handle_eod_exits cfg hist d bt = Inr bt1"
  from handle_eod_exits_frame[OF h]
  have f: "map terms_of (trades bt1) = map terms_of (trades bt)"
    and c: "initial_capital bt1 = initial_capital bt" by simp_all
  from f have len: "length (trades bt1) = length (trades bt)" by (metis length_map)
  have "\<forall>k<length (trades bt). strategy (trades bt1 ! k) = strategy (trades bt ! k)
             \<and> legs (trades bt1 ! k) = legs (trades bt ! k)
             \<and> entry_premium (trades bt1 ! k) = entry_premium (trades bt ! k)
             \<and> margin_required (trades bt1 ! k) = margin_required (trades bt ! k)"
  proof (intro allI impI)
    fix k assume k: "k < length (trades bt)"
    from f have "map terms_of (trades bt1) = map terms_of (trades bt) @ []" by simp
    from frame_nth[OF this k]
    show "strategy (trades bt1 ! k) = strategy (trades bt ! k)
             \<and> legs (trades bt1 ! k) = legs (trades bt ! k)
             \<and> entry_premium (trades bt1 ! k) = entry_premium (trades bt ! k)
             \<and> margin_required (trades bt1 ! k) = margin_required (trades bt ! k)"
      by (simp add: terms_of_def)
  qed
  with len c show "length (trades bt1) = length (trades bt) \<and> initial_capital bt1 = initial_capital bt
      \<and> (\<forall>k<length (trades bt). strategy (trades bt1 ! k) = strategy (trades bt ! k)
             \<and> legs (trades bt1 ! k) = legs (trades bt ! k)
             \<and> entry_premium (trades bt1 ! k) = entry_premium (trades bt ! k)
             \<and> margin_required (trades bt1 ! k) = margin_required (trades bt ! k))"
    by blast
next
  assume a: "run_ops cfg ops bt = Inr bt2 \<and> k < length (trades bt)"
  then obtain ps where "map terms_of (trades bt2) = map terms_of (trades bt) @ ps"
    using run_ops_frame by blast
  from frame_nth[OF this] a
  show "k < length (trades bt2)
        \<and> strategy (trades bt2 ! k) = strategy (trades bt ! k)
        \<and> legs (trades bt2 ! k) = legs (trades bt ! k)
        \<and> entry_premium (trades bt2 ! k) = entry_premium (trades bt ! k)
        \<and> margin_required (trades bt2 ! k) = margin_required (trades bt ! k)"
    by (simp add: terms_of_def)
qed

section \<open>Signals and the loop\<close>











text \<open>
  C10.  With a looked-up volatility value of exactly 0 the non-directional step leaves
  the ledger and the count of chain requests as they are, as with no value; the loop
  body is the same as if the value were absent; this although a negative threshold
  would make the generator answer "Short Straddle" for 0.
\<close>

theorem zero_vix_skips_straddle:
  "non_directional_step cfg pr (Some 0) price s = s
   \<and> non_directional_step cfg pr (Some 0) price s = non_directional_step cfg pr None price s
   \<and> (vix_map (c_timestamp (underlying_data ! i)) = Some 0 \<longrightarrow>
        loop_body cfg dir pr underlying_data vix_map i st =
        loop_body cfg dir pr underlying_data
          (vix_map(c_timestamp (underlying_data ! i) := None)) i st)
   \<and> (INDIA_VIX_THRESHOLD cfg < 0 \<longrightarrow> nd_check_entry_signal cfg 0 = Some short_straddle)"
proof -
  have z: "\<And>p t. non_directional_step cfg pr (Some 0) p t = t"
    by (simp add: non_directional_step_def)
  have n: "\<And>p t. non_directional_step cfg pr None p t = t"
    by (simp add: non_directional_step_def)
  have body: "vix_map (c_timestamp (underlying_data ! i)) = Some 0 \<longrightarrow>
        loop_body cfg dir pr underlying_data vix_map i st =
        loop_body cfg dir pr underlying_data
          (vix_map(c_timestamp (underlying_data ! i) := None)) i st"
  proof
    assume h: "vix_map (c_timestamp (underlying_data ! i)) = Some 0"
    show "loop_body cfg dir pr underlying_data vix_map i st =
        loop_body cfg dir pr underlying_data
          (vix_map(c_timestamp (underlying_data ! i) := None)) i st"
      unfolding loop_body_def Let_def h fun_upd_same z n by (rule refl)
  qed
  have thr: "INDIA_VIX_THRESHOLD cfg < 0 \<longrightarrow> nd_check_entry_signal cfg 0 = Some short_straddle"
    by (simp add: nd_check_entry_signal_def)
  from z n body thr show ?thesis by simp
qed

lemma backtest_loop_skipped:
  "\<forall>i\<in>set idxs. i < long_ma_period dir \<Longrightarrow>
     backtest_loop cfg dir pr underlying_data vix_map idxs s = Inr s"
  by (induction idxs) (simp_all add: loop_body_def)

text \<open>
  C2.  With two non-empty series, when the underlying series is not longer than the
  long moving-average period every index is skipped, \<open>prev_day\<close> is still \<open>None\<close>
  after the loop, and the settlement called with it raises \<open>AttributeError\<close>: no
  report is produced.
\<close>

theorem short_series_raises:
  assumes "underlying_data \<noteq> []" "vix_data \<noteq> []"
    "length underlying_data \<le> long_ma_period dir"
  shows "run_backtest cfg dir pr capital underlying_data vix_data = Inl AttributeError"
proof -
  have "\<forall>i\<in>set [0..<length underlying_data]. i < long_ma_period dir"
    using assms(3) by simp
  then have "backtest_loop cfg dir pr underlying_data (vix_map_of vix_data)
                [0..<length underlying_data]
                \<lparr>ledger = init_backtester capital, prev_day = None, chain_calls = 0\<rparr>
             = Inr \<lparr>ledger = init_backtester capital, prev_day = None, chain_calls = 0\<rparr>"
    by (rule backtest_loop_skipped)
  with assms(1,2) show ?thesis
    by (simp add: run_backtest_def handle_eod_exits_def)
qed

section \<open>Evaluation on the worked inputs\<close>

lemmas ex_defs = ex_candle_def ex_put_sell_def ex_put_buy_def ex_chain_def ex_wide_chain_def
  ex_config_def ex_history_def ex_history_missing_def ex_position_def ex_open_ledger_def
  ex_provider_def ex_dir_def

lemmas model_defs = execute_trade_def build_legs_def find_option_def delta_diff_def
  init_backtester_def handle_eod_exits_def settle_position_def check_exit_conditions_def
  bull_put_spread_def bear_call_spread_def short_straddle_def Let_def

lemmas ind_defs = calculate_sma_def calculate_rsi_def rolling_mean_def upt_rec
        gain_of_def loss_of_def rsi_value_def check_entry_signal_def iloc_neg_def
        crossover_signal_def nan_le_def nan_less_def


text \<open>
  C1.  A Bull Put Spread is opened at last-traded prices 10 (sold) and 4 (bought), so
  the entry premium is 6.  On the settlement day both closing prices equal the
  last-traded prices.  The recomputed net premium is \<open>- 6\<close>, not 6: the settlement
  sum counts a sold leg negative while the entry premium counts it positive.  The pnl
  is 12, not 0, and the position is closed by the take-profit rule.
\<close>

theorem unchanged_prices_pnl_not_zero:
  "execute_trade ex_config (Some ex_chain) bull_put_spread 0 (init_backtester 1000) = ex_open_ledger
   \<and> map (\<lambda>l. map c_close (ex_history (symbol (opt l)) 1)) (legs ex_position)
       = map (\<lambda>l. [ltp (opt l)]) (legs ex_position)
   \<and> net_premium_loop (\<lambda>y. ex_history y 1) (legs ex_position) 0 = Some (- 6)
   \<and> entry_premium ex_position = 6
   \<and> handle_eod_exits ex_config ex_history (Some 1) ex_open_ledger =
       Inr \<lparr>initial_capital = 1000, cash = 1012, positions = [],
            trades = [ex_position\<lparr>pnl := 12, status := CLOSED\<rparr>]\<rparr>"
  by (simp add: ex_defs model_defs)

theorem short_series_raises_witness:
  "[ex_candle 0 100] \<noteq> [] \<and> [ex_candle 0 15] \<noteq> []
   \<and> length [ex_candle 0 100] \<le> long_ma_period \<lparr>short_ma_period = 21, long_ma_period = 55, rsi_period = 14\<rparr>
   \<and> run_backtest ex_config \<lparr>short_ma_period = 21, long_ma_period = 55, rsi_period = 14\<rparr>
        ex_provider 1000 [ex_candle 0 100] [ex_candle 0 15] = Inl AttributeError"
  using short_series_raises[of "[ex_candle 0 100]" "[ex_candle 0 15]"
          "\<lparr>short_ma_period = 21, long_ma_period = 55, rsi_period = 14\<rparr>" ex_config ex_provider 1000]
  by simp




theorem unobtainable_leg_skips_position_witness:
  "0 \<in> set (positions ex_open_ledger) \<and> status (trades ex_open_ledger ! 0) = OPEN
   \<and> \<lparr>action = BUY, opt = ex_put_buy\<rparr> \<in> set (legs (trades ex_open_ledger ! 0))
   \<and> ex_history_missing (symbol ex_put_buy) 1 = []
   \<and> ex_history_missing (symbol ex_put_sell) 1 \<noteq> []
   \<and> settle_position (SL_PERCENTAGE ex_config) (TP_PERCENTAGE ex_config)
        (\<lambda>y. ex_history_missing y 1) 0 ex_open_ledger = Inr ex_open_ledger
   \<and> handle_eod_exits ex_config ex_history_missing (Some 1) ex_open_ledger = Inr ex_open_ledger"
  using unobtainable_leg_skips_position[of 0 ex_open_ledger "\<lparr>action = BUY, opt = ex_put_buy\<rparr>"
          ex_history_missing 1 ex_config]
  by (simp add: ex_defs model_defs)

theorem settlement_frame_witness:
  "handle_eod_exits ex_config ex_history (Some 1) ex_open_ledger
      = Inr \<lparr>initial_capital = 1000, cash = 1012, positions = [],
             trades = [ex_position\<lparr>pnl := 12, status := CLOSED\<rparr>]\<rparr>
   \<and> run_ops ex_config [Settle ex_history 1, Entry (Some ex_chain) bull_put_spread 0]
        ex_open_ledger
      = Inr \<lparr>initial_capital = 1000, cash = 1008, positions = [1],
             trades = [ex_position\<lparr>pnl := 12, status := CLOSED\<rparr>, ex_position]\<rparr>
   \<and> entry_premium (ex_position\<lparr>pnl := 12, status := CLOSED\<rparr>) = entry_premium ex_position
   \<and> margin_required (ex_position\<lparr>pnl := 12, status := CLOSED\<rparr>) = margin_required ex_position"
  using settlement_frame[of ex_config ex_history "Some 1" ex_open_ledger
          "\<lparr>initial_capital = 1000, cash = 1012, positions = [],
             trades = [ex_position\<lparr>pnl := 12, status := CLOSED\<rparr>]\<rparr>"
          "[Settle ex_history 1, Entry (Some ex_chain) bull_put_spread 0]"
          "\<lparr>initial_capital = 1000, cash = 1008, positions = [1],
             trades = [ex_position\<lparr>pnl := 12, status := CLOSED\<rparr>, ex_position]\<rparr>" 0]
  by (simp add: ex_defs model_defs)


theorem zero_vix_skips_straddle_witness:
  "vix_map_of [ex_candle 2 0] (c_timestamp (ex_flat ! 2)) = Some 0
   \<and> INDIA_VIX_THRESHOLD (ex_config\<lparr>INDIA_VIX_THRESHOLD := - 1\<rparr>) < 0
   \<and> nd_check_entry_signal (ex_config\<lparr>INDIA_VIX_THRESHOLD := - 1\<rparr>) 0 = Some short_straddle
   \<and> loop_body (ex_config\<lparr>INDIA_VIX_THRESHOLD := - 1\<rparr>) ex_dir ex_provider ex_flat
        (vix_map_of [ex_candle 2 0]) 2
        \<lparr>ledger = init_backtester 1000, prev_day = None, chain_calls = 0\<rparr>
      = Inr \<lparr>ledger = init_backtester 1000, prev_day = Some 0, chain_calls = 0\<rparr>
   \<and> loop_body (ex_config\<lparr>INDIA_VIX_THRESHOLD := - 1\<rparr>) ex_dir ex_provider ex_flat
        (vix_map_of [ex_candle 2 1]) 2
        \<lparr>ledger = init_backtester 1000, prev_day = None, chain_calls = 0\<rparr>
      = Inr \<lparr>ledger = init_backtester 1000, prev_day = Some 0, chain_calls = 1\<rparr>"
  using zero_vix_skips_straddle[of "ex_config\<lparr>INDIA_VIX_THRESHOLD := - 1\<rparr>" ex_provider
          "c_close (ex_flat ! 2)" "(init_backtester 1000, 0)" "vix_map_of [ex_candle 2 0]"
          ex_flat 2 ex_dir "\<lparr>ledger = init_backtester 1000, prev_day = None, chain_calls = 0\<rparr>"]
  by (simp add: ind_defs ex_defs ex_flat_def model_defs loop_body_def vix_map_of_def
        non_directional_step_def nd_check_entry_signal_def attempt_trade_def)

end
